theory Spec2Isabelle
  imports Complex_Main "HOL-Library.Char_ord" "HOL-Library.List_Lexorder"
begin

section \<open>The fine-tuning driver \<open>pretraining/run_language_modeling.py\<close>\<close>

text \<open>
  The script parses three groups of arguments, validates them, loads a model and a
  tokenizer, registers two sentinel tokens, builds the training dataset, resizes the
  embedding matrix, trains, evaluates and writes the perplexity to a file. Everything
  it calls lives outside the file. The embedding below keeps \<open>main\<close> statement by
  statement; each call to a collaborator is recorded in a trace of events and answered
  by a field of an environment record, and each exception is a value.
\<close>

subsection \<open>Configuration records (lines 47--112)\<close>

text \<open>\<open>Optional[str]\<close> fields are \<open>string option\<close>; \<open>None\<close> is \<open>None\<close>.\<close>

record ModelArguments =
  model_name_or_path :: "string option"
  model_type :: "string option"
  config_name :: "string option"
  tokenizer_name :: "string option"
  cache_dir :: "string option"

record DataTrainingArguments =
  train_data_file :: "string option"
  eval_data_file :: "string option"
  line_by_line :: bool
  globalize_special_tokens :: bool
  mlm :: bool
  mlm_probability :: real
  block_size :: int
  overwrite_cache :: bool

text \<open>
  \<open>TrainingArguments\<close> belongs to the training framework. The record has the stored
  fields that \<open>main\<close> reads; the object is handed to the trainer as a whole. Its
  attributes \<open>device\<close> and \<open>n_gpu\<close> are not stored: the framework computes them when
  they are read, which may raise; that reading is a collaborator (\<open>setup_devices\<close>
  below).
\<close>

record TrainingArguments =
  output_dir :: string
  do_train :: bool
  do_eval :: bool
  overwrite_output_dir :: bool
  local_rank :: int
  seed :: int
  fp16 :: bool

text \<open>The defaults of the two dataclasses of this file.\<close>

definition default_ModelArguments :: ModelArguments where
  "default_ModelArguments =
     \<lparr> model_name_or_path = Some ''/home/t-avic/PycharmProjects/coref_former/longformer-base-4096/'',
       model_type = None,
       config_name = Some ''/home/t-avic/PycharmProjects/coref_former/longformer-base-4096/'',
       tokenizer_name = Some ''RobertaTokenizer'',
       cache_dir = Some ''/home/t-avic/PycharmProjects/coref_former/finetuned'' \<rparr>"

definition default_DataTrainingArguments :: DataTrainingArguments where
  "default_DataTrainingArguments =
     \<lparr> train_data_file = Some ''train.txt.src'',
       eval_data_file = None,
       line_by_line = False,
       globalize_special_tokens = False,
       mlm = True,
       mlm_probability = 15 / 100,
       block_size = - 1,
       overwrite_cache = False \<rparr>"

subsection \<open>Exceptions, floats and events\<close>

text \<open>
  \<open>ValueError\<close>, \<open>KeyError\<close> and \<open>OverflowError\<close> are raised by statements of
  \<open>main\<close> itself (its two \<open>raise\<close> statements, the subscript \<open>eval_output["loss"]\<close>
  and \<open>math.exp\<close>). \<open>Propagated\<close> tags an exception of any class that was raised
  inside a collaborator or a file-system call and passes through \<open>main\<close> uncaught; its
  argument is the collaborator's description of it.
\<close>

datatype exn =
    ValueError string
  | KeyError string
  | OverflowError string
  | Propagated string

text \<open>
  A Python float is a finite double, an infinity or a NaN. A finite double is
  represented by the real number it denotes; rounding of finite results is not part
  of the model.
\<close>

datatype pyfloat = Finite real | PosInf | NegInf | NaN

datatype log_level = INFO | WARN

text \<open>The tokenizer and the model, as far as the script looks at them.

  Modelled from the spec: the tokenizer class of the training framework, which is not
  under src/. The spec describes it as a mutable vocabulary to which special tokens are
  registered, where re-adding a token that is present creates no second id, and whose
  size is what the embedding matrix is resized to. \<open>vocab\<close> lists the tokens in id order
  (the token at position \<open>i\<close> has id \<open>i\<close>); \<open>special\<close> lists the tokens marked special.\<close>

record tokenizer =
  vocab :: "string list"
  special :: "string list"

text \<open>Modelled from the spec: the language model of the training framework, which is
  not under src/. The script only resizes its token-embedding matrix: \<open>embedding\<close> is
  the list of rows, \<open>init_row\<close> is the model's own initialisation policy for the row of
  a new id.\<close>

record 'r lm =
  embedding :: "'r list"
  init_row :: "nat \<Rightarrow> 'r"

datatype event =
    BasicConfig log_level
  | Log log_level string
  | SetSeed int
  | LoadModel string
  | LoadTokenizer string
  | AddTokens "string list" bool
  | NewTextDataset tokenizer string "string option" int int
  | ResizeTokenEmbeddings nat
  | NewDataCollator tokenizer bool real bool
  | NewTrainer bool
  | Train "string option"
  | SaveTokenizer tokenizer string
  | Evaluate
  | OpenWrite string
  | Write string string

subsection \<open>The collaborators\<close>

text \<open>
  What the file system, the training framework and the two helper modules
  \<open>pretraining.corpus_preprocessing\<close> and \<open>pretraining.cdmlm_data_collector\<close> answer.
  \<open>Inl d\<close> is an exception raised inside the collaborator, \<open>Inr v\<close> its result.
  \<open>setup_devices\<close> is the reading of \<open>training_args.device\<close> and
  \<open>training_args.n_gpu\<close>, \<open>set_seed\<close> the seeding of the random-number sources (it
  rejects a seed that the generators do not accept). \<open>str_float\<close> is Python's \<open>str\<close>
  on floats.
\<close>

record ('r, 'd, 'c, 't) env =
  path_exists :: "string \<Rightarrow> bool"
  listdir :: "string \<Rightarrow> string + string list"
  isdir :: "string \<Rightarrow> bool"
  setup_devices :: "TrainingArguments \<Rightarrow> string + string \<times> int"
  set_seed :: "int \<Rightarrow> string + unit"
  model_from_pretrained :: "string \<Rightarrow> string + 'r lm"
  tokenizer_from_pretrained :: "string \<Rightarrow> string + tokenizer"
  TextDataset :: "tokenizer \<Rightarrow> string \<Rightarrow> string option \<Rightarrow> int \<Rightarrow> int \<Rightarrow> string + 'd"
  DataCollatorForLanguageModeling :: "tokenizer \<Rightarrow> bool \<Rightarrow> real \<Rightarrow> bool \<Rightarrow> string + 'c"
  Trainer :: "'r lm \<Rightarrow> TrainingArguments \<Rightarrow> 'c \<Rightarrow> 'd \<Rightarrow> bool \<Rightarrow> string + 't"
  train :: "'t \<Rightarrow> string option \<Rightarrow> string + 't"
  is_world_master :: "'t \<Rightarrow> bool"
  save_pretrained :: "tokenizer \<Rightarrow> string \<Rightarrow> string + unit"
  evaluate :: "'t \<Rightarrow> string + (string \<times> pyfloat) list"
  open_w :: "string \<Rightarrow> string + unit"
  str_float :: "pyfloat \<Rightarrow> string"

subsection \<open>Runs: a result or an exception, and the events so far\<close>

text \<open>
  A run takes the trace of the events that have happened and returns the trace
  extended by its own events, with its result or the exception that ended it.
\<close>

type_synonym 'a run = "event list \<Rightarrow> (exn + 'a) \<times> event list"

definition ret :: "'a \<Rightarrow> 'a run" where
  "ret x tr = (Inr x, tr)"

definition raise :: "exn \<Rightarrow> 'a run" where
  "raise e tr = (Inl e, tr)"

definition emit :: "event \<Rightarrow> unit run" where
  "emit ev tr = (Inr (), tr @ [ev])"

definition call :: "event \<Rightarrow> string + 'a \<Rightarrow> 'a run" where
  "call ev r tr =
     (case r of Inl d \<Rightarrow> (Inl (Propagated d), tr @ [ev]) | Inr x \<Rightarrow> (Inr x, tr @ [ev]))"

text \<open>A collaborator that is asked without leaving an event.\<close>

definition ask :: "string + 'a \<Rightarrow> 'a run" where
  "ask r tr = (case r of Inl d \<Rightarrow> (Inl (Propagated d), tr) | Inr x \<Rightarrow> (Inr x, tr))"

definition lift :: "exn + 'a \<Rightarrow> 'a run" where
  "lift r tr = (r, tr)"

definition seq :: "'a run \<Rightarrow> ('a \<Rightarrow> 'b run) \<Rightarrow> 'b run" where
  "seq m f tr = (case m tr of (Inl e, tr') \<Rightarrow> (Inl e, tr') | (Inr x, tr') \<Rightarrow> f x tr')"

subsection \<open>Library functions of Python\<close>

text \<open>
  \<open>math.exp\<close> on a double. The largest finite double is \<open>2^1024 - 2^971\<close>; a real at
  or above \<open>2^1024 - 2^970\<close> rounds to infinity. For a finite argument whose
  exponential rounds to infinity \<open>math.exp\<close> raises \<open>OverflowError('math range error')\<close>;
  for the infinities and NaN it returns the limit without raising.
\<close>

definition DBL_OVERFLOW :: real where
  "DBL_OVERFLOW = 2 ^ 1024 - 2 ^ 970"

definition math_exp :: "pyfloat \<Rightarrow> exn + pyfloat" where
  "math_exp x =
     (case x of
        Finite r \<Rightarrow>
          if DBL_OVERFLOW \<le> exp r then Inl (OverflowError ''math range error'')
          else Inr (Finite (exp r))
      | PosInf \<Rightarrow> Inr PosInf
      | NegInf \<Rightarrow> Inr (Finite 0)
      | NaN \<Rightarrow> Inr NaN)"

text \<open>\<open>os.path.join\<close> of two components, on POSIX.\<close>

definition os_path_join :: "string \<Rightarrow> string \<Rightarrow> string" where
  "os_path_join a b =
     (if b \<noteq> [] \<and> hd b = CHR ''/'' then b
      else if a = [] \<or> last a = CHR ''/'' then a @ b
      else a @ ''/'' @ b)"

text \<open>A dict literal is an association list; subscripting a missing key raises.\<close>

definition getitem :: "(string \<times> 'v) list \<Rightarrow> string \<Rightarrow> exn + 'v" where
  "getitem d k = (case map_of d k of None \<Rightarrow> Inl (KeyError k) | Some v \<Rightarrow> Inr v)"

subsection \<open>Tokenizer and model operations\<close>

text \<open>Modelled from the spec: \<open>tokenizer.add_tokens(new_tokens, special_tokens)\<close> of the
  training framework, not under src/. Each token that is not yet in the vocabulary
  gets the next free id; a token that is present is not added again. With
  \<open>special_tokens\<close> set, the tokens are marked special. (The Python method returns the
  number of added tokens, which the script ignores, and updates the tokenizer in
  place; here the updated tokenizer is returned.)\<close>

fun add_tokens :: "string list \<Rightarrow> bool \<Rightarrow> tokenizer \<Rightarrow> tokenizer" where
  "add_tokens [] special_tokens tok = tok"
| "add_tokens (t # ts) special_tokens tok =
     add_tokens ts special_tokens
       (tok\<lparr> vocab := (if t \<in> set (vocab tok) then vocab tok else vocab tok @ [t]),
             special := (if special_tokens then List.insert t (special tok) else special tok) \<rparr>)"

text \<open>Modelled from the spec: \<open>len(tokenizer)\<close>, the vocabulary size including added
  tokens.\<close>

definition len :: "tokenizer \<Rightarrow> nat" where
  "len tok = length (vocab tok)"

text \<open>Modelled from the spec: \<open>model.resize_token_embeddings(n)\<close> of the training
  framework, not under src/. The matrix gets exactly \<open>n\<close> rows: the existing rows with
  an id below \<open>n\<close> are kept, and the rows of new ids are initialised by the model's own
  policy.\<close>

definition resize_token_embeddings :: "'r lm \<Rightarrow> nat \<Rightarrow> 'r lm" where
  "resize_token_embeddings m n =
     m\<lparr> embedding := take n (embedding m) @ map (init_row m) [length (embedding m) ..< n] \<rparr>"

subsection \<open>\<open>get_dataset\<close> (lines 115--119)\<close>

definition get_dataset ::
  "('r, 'd, 'c, 't) env \<Rightarrow> DataTrainingArguments \<Rightarrow> tokenizer \<Rightarrow> bool \<Rightarrow> int \<Rightarrow> 'd run" where
  "get_dataset E args tok evaluate_flag rank =
     (let file_path = (if evaluate_flag then eval_data_file args else train_data_file args);
          split = (if evaluate_flag then ''dev'' else ''train'')
      in call (NewTextDataset tok split file_path (block_size args) rank)
              (TextDataset E tok split file_path (block_size args) rank))"

subsection \<open>\<open>main\<close> (lines 122--207)\<close>

text \<open>
  The model starts from the three parsed configuration objects (line 124). It is written
  in three blocks, in the order of the source.
\<close>

definition missing_eval_file_message :: string where
  "missing_eval_file_message =
     ''Cannot do evaluation without an evaluation data file. Either supply a file to --eval_data_file or remove the --do_eval argument.''"

definition output_dir_message :: "string \<Rightarrow> string" where
  "output_dir_message dir =
     ''Output directory ('' @ dir @ '') already exists and is not empty. Use --overwrite_output_dir to overcome.''"

text \<open>
  Lines 126--140. The second condition is a chain of \<open>and\<close>: \<open>os.listdir\<close> is called only
  if the path exists, and before the two flags are looked at, so an exception of
  \<open>os.listdir\<close> (the path is a file, say) propagates whatever the flags are.
\<close>

definition startup_validation ::
  "('r, 'd, 'c, 't) env \<Rightarrow> DataTrainingArguments \<Rightarrow> TrainingArguments \<Rightarrow> unit run" where
  "startup_validation E data_args training_args =
     (if eval_data_file data_args = None \<and> do_eval training_args
      then raise (ValueError missing_eval_file_message)
      else if path_exists E (output_dir training_args)
      then (case listdir E (output_dir training_args) of
              Inl d \<Rightarrow> raise (Propagated d)
            | Inr entries \<Rightarrow>
                if entries \<noteq> [] \<and> do_train training_args \<and> \<not> overwrite_output_dir training_args
                then raise (ValueError (output_dir_message (output_dir training_args)))
                else ret ())
      else ret ())"

text \<open>The format strings of the log messages (the arguments are not rendered).\<close>

definition process_rank_format :: string where
  "process_rank_format =
     ''Process rank: %s, device: %s, n_gpu: %s, distributed training: %s, 16-bits training: %s''"

definition parameters_format :: string where
  "parameters_format = ''Training/evaluation parameters %s''"

definition checkpoint :: string where
  "checkpoint = ''allenai/longformer-base-4096''"

text \<open>
  Lines 159--167: load the model and the tokenizer, register the two sentinel tokens,
  set the block size, build the training dataset, resize the embedding matrix. The
  block returns the four objects that the rest of \<open>main\<close> uses.
\<close>

definition load_and_prepare ::
  "('r, 'd, 'c, 't) env \<Rightarrow> DataTrainingArguments \<Rightarrow> TrainingArguments
     \<Rightarrow> ('r lm \<times> tokenizer \<times> DataTrainingArguments \<times> 'd) run" where
  "load_and_prepare E data_args training_args =
     seq (call (LoadModel checkpoint) (model_from_pretrained E checkpoint)) (\<lambda>model.
     seq (call (LoadTokenizer checkpoint) (tokenizer_from_pretrained E checkpoint)) (\<lambda>tok.
     seq (emit (AddTokens [''<doc-s>''] True)) (\<lambda>_.
     let tok = add_tokens [''<doc-s>''] True tok in
     seq (emit (AddTokens [''</doc-s>''] True)) (\<lambda>_.
     let tok = add_tokens [''</doc-s>''] True tok;
         data_args = data_args\<lparr> block_size := 4096 \<rparr> in
     seq (get_dataset E data_args tok False (local_rank training_args)) (\<lambda>train_dataset.
     seq (emit (ResizeTokenEmbeddings (len tok))) (\<lambda>_.
     let model = resize_token_embeddings model (len tok) in
     ret (model, tok, data_args, train_dataset)))))))"

text \<open>Lines 199--203: the loop over the sorted keys of \<open>result\<close>.\<close>

fun write_results ::
  "(pyfloat \<Rightarrow> string) \<Rightarrow> string \<Rightarrow> (string \<times> pyfloat) list \<Rightarrow> string list \<Rightarrow> unit run" where
  "write_results str path result [] = ret ()"
| "write_results str path result (key # keys) =
     seq (lift (getitem result key)) (\<lambda>v.
     seq (emit (Log INFO (''  '' @ key @ '' = '' @ str v))) (\<lambda>_.
     seq (emit (Write path (key @ '' = '' @ str v @ ''\<newline>''))) (\<lambda>_.
     write_results str path result keys)))"

text \<open>Lines 190--207: evaluate, compute the perplexity, write the results file.\<close>

definition evaluate_and_report ::
  "('r, 'd, 'c, 't) env \<Rightarrow> TrainingArguments \<Rightarrow> 't \<Rightarrow> (string \<rightharpoonup> pyfloat) run" where
  "evaluate_and_report E training_args trainer =
     (let results = Map.empty in
      seq (emit (Log INFO ''*** Evaluate ***'')) (\<lambda>_.
      seq (call Evaluate (evaluate E trainer)) (\<lambda>eval_output.
      seq (lift (getitem eval_output ''loss'')) (\<lambda>loss.
      seq (lift (math_exp loss)) (\<lambda>perplexity.
      let result = [(''perplexity'', perplexity)];
          output_eval_file = os_path_join (output_dir training_args) ''eval_results_lm.txt'' in
      seq (call (OpenWrite output_eval_file) (open_w E output_eval_file)) (\<lambda>_.
      seq (emit (Log INFO ''***** Eval results *****'')) (\<lambda>_.
      seq (write_results (str_float E) output_eval_file result (sort (map fst result))) (\<lambda>_.
      ret (results ++ map_of result)))))))))"

text \<open>
  The whole of \<open>main\<close>. Lines 142--157 between the checks and the loading: the logging
  is configured; the arguments of \<open>logger.warning\<close> are evaluated, which reads
  \<open>training_args.device\<close> and \<open>training_args.n_gpu\<close> and may raise; the two messages
  are logged; \<open>set_seed\<close> is called and may raise.
\<close>

definition main ::
  "('r, 'd, 'c, 't) env \<Rightarrow> ModelArguments \<Rightarrow> DataTrainingArguments \<Rightarrow> TrainingArguments
     \<Rightarrow> (exn + (string \<rightharpoonup> pyfloat)) \<times> event list" where
  "main E model_args data_args training_args =
    (seq (startup_validation E data_args training_args) (\<lambda>_.
     seq (emit (BasicConfig (if local_rank training_args \<in> {- 1, 0} then INFO else WARN))) (\<lambda>_.
     seq (ask (setup_devices E training_args)) (\<lambda>device_and_n_gpu.
     seq (emit (Log WARN process_rank_format)) (\<lambda>_.
     seq (emit (Log INFO parameters_format)) (\<lambda>_.
     seq (call (SetSeed (seed training_args)) (set_seed E (seed training_args))) (\<lambda>_.
     seq (load_and_prepare E data_args training_args) (\<lambda>(model, tok, data_args, train_dataset).
     seq (call (NewDataCollator tok (mlm data_args) (mlm_probability data_args)
                  (globalize_special_tokens data_args))
               (DataCollatorForLanguageModeling E tok (mlm data_args) (mlm_probability data_args)
                  (globalize_special_tokens data_args))) (\<lambda>data_collator.
     seq (call (NewTrainer True)
               (Trainer E model training_args data_collator train_dataset True)) (\<lambda>trainer.
     let model_path =
           (case model_name_or_path model_args of
              None \<Rightarrow> None
            | Some p \<Rightarrow> if isdir E p then Some p else None) in
     seq (call (Train model_path) (train E trainer model_path)) (\<lambda>trainer.
     seq (if is_world_master E trainer
          then call (SaveTokenizer tok (output_dir training_args))
                    (save_pretrained E tok (output_dir training_args))
          else ret ()) (\<lambda>_.
     evaluate_and_report E training_args trainer)))))))))))) []"

subsection \<open>Reading a trace\<close>

fun is_load :: "event \<Rightarrow> bool" where
  "is_load (LoadModel ident) = True"
| "is_load (LoadTokenizer ident) = True"
| "is_load ev = False"

fun is_trainer_call :: "event \<Rightarrow> bool" where
  "is_trainer_call (Train model_path) = True"
| "is_trainer_call Evaluate = True"
| "is_trainer_call ev = False"

fun is_file_event :: "event \<Rightarrow> bool" where
  "is_file_event (OpenWrite path) = True"
| "is_file_event (Write path text) = True"
| "is_file_event ev = False"

subsection \<open>A sample environment\<close>

text \<open>
  A small world on which the runs can be computed: a checkpoint with three tokens and
  three embedding rows, an output directory \<open>old_run\<close> left by an earlier run, a
  dataset that needs a file path, and a trainer whose evaluation loss is \<open>0.0\<close>.
\<close>

definition sample_tokenizer :: tokenizer where
  "sample_tokenizer = \<lparr> vocab = [''<s>'', ''</s>'', ''the''], special = [''<s>'', ''</s>''] \<rparr>"

definition sample_model :: "nat lm" where
  "sample_model = \<lparr> embedding = [10, 11, 12], init_row = (\<lambda>i. 0) \<rparr>"

definition sample_env :: "(nat, unit, unit, unit) env" where
  "sample_env =
     \<lparr> path_exists = (\<lambda>p. p = ''old_run''),
       listdir = (\<lambda>p. if p = ''old_run'' then Inr [''checkpoint-500''] else Inl ''FileNotFoundError''),
       isdir = (\<lambda>p. False),
       setup_devices = (\<lambda>args. Inr (''cpu'', 0)),
       set_seed = (\<lambda>n. if 0 \<le> n \<and> n < 2 ^ 32 then Inr () else Inl ''ValueError''),
       model_from_pretrained =
         (\<lambda>ident. if ident = ''allenai/longformer-base-4096'' then Inr sample_model else Inl ''OSError''),
       tokenizer_from_pretrained =
         (\<lambda>ident. if ident = ''allenai/longformer-base-4096'' then Inr sample_tokenizer else Inl ''OSError''),
       TextDataset =
         (\<lambda>tok split file_path bs rank. case file_path of None \<Rightarrow> Inl ''TypeError'' | Some p \<Rightarrow> Inr ()),
       DataCollatorForLanguageModeling = (\<lambda>tok use_mlm prob glob. Inr ()),
       Trainer = (\<lambda>model args collator dataset loss_only. Inr ()),
       train = (\<lambda>trainer model_path. Inr ()),
       is_world_master = (\<lambda>trainer. True),
       save_pretrained = (\<lambda>tok dir. Inr ()),
       evaluate = (\<lambda>trainer. Inr [(''loss'', Finite 0)]),
       open_w = (\<lambda>path. Inr ()),
       str_float = (\<lambda>x. if x = Finite 1 then ''1.0'' else ''other'') \<rparr>"

text \<open>The same world with a checkpoint whose embedding matrix has eight rows.\<close>

definition wide_model :: "nat lm" where
  "wide_model = \<lparr> embedding = [10, 11, 12, 13, 14, 15, 16, 17], init_row = (\<lambda>i. 0) \<rparr>"

definition wide_env :: "(nat, unit, unit, unit) env" where
  "wide_env = sample_env\<lparr> model_from_pretrained := (\<lambda>ident. Inr wide_model) \<rparr>"


definition sample_training_args :: TrainingArguments where
  "sample_training_args =
     \<lparr> output_dir = ''out'', do_train = False, do_eval = False, overwrite_output_dir = False,
       local_rank = - 1, seed = 42, fp16 = False \<rparr>"

text \<open>What the run in the sample environment with the default arguments produces.\<close>

definition prepared_tokenizer :: tokenizer where
  "prepared_tokenizer =
     \<lparr> vocab = [''<s>'', ''</s>'', ''the'', ''<doc-s>'', ''</doc-s>''],
       special = [''</doc-s>'', ''<doc-s>'', ''<s>'', ''</s>''] \<rparr>"

definition sample_trace :: "event list" where
  "sample_trace =
     [BasicConfig INFO, Log WARN process_rank_format, Log INFO parameters_format, SetSeed 42,
      LoadModel ''allenai/longformer-base-4096'', LoadTokenizer ''allenai/longformer-base-4096'',
      AddTokens [''<doc-s>''] True, AddTokens [''</doc-s>''] True,
      NewTextDataset prepared_tokenizer ''train'' (Some ''train.txt.src'') 4096 (- 1),
      ResizeTokenEmbeddings 5,
      NewDataCollator prepared_tokenizer True (15 / 100) False,
      NewTrainer True, Train None, SaveTokenizer prepared_tokenizer ''out'',
      Log INFO ''*** Evaluate ***'', Evaluate]"

definition sample_report :: "event list" where
  "sample_report =
     [OpenWrite ''out/eval_results_lm.txt'', Log INFO ''***** Eval results *****'',
      Log INFO ''  perplexity = 1.0'',
      Write ''out/eval_results_lm.txt'' ''perplexity = 1.0\<newline>'']"

section \<open>Properties of the runs\<close>

subsection \<open>Sequencing\<close>


lemma seq_ret [simp]: "seq (ret x) f tr = f x tr"
  by (simp add: seq_def ret_def)

lemma seq_raise [simp]: "seq (raise e) f tr = (Inl e, tr)"
  by (simp add: seq_def raise_def)

lemma seq_emit [simp]: "seq (emit ev) f tr = f () (tr @ [ev])"
  by (simp add: seq_def emit_def)

lemma seq_call [simp]:
  "seq (call ev r) f tr =
     (case r of Inl d \<Rightarrow> (Inl (Propagated d), tr @ [ev]) | Inr x \<Rightarrow> f x (tr @ [ev]))"
  by (simp add: seq_def call_def split: sum.splits)

lemma seq_lift [simp]:
  "seq (lift r) f tr = (case r of Inl e \<Rightarrow> (Inl e, tr) | Inr x \<Rightarrow> f x tr)"
  by (simp add: seq_def lift_def split: sum.splits)

lemma seq_ask [simp]:
  "seq (ask r) f tr = (case r of Inl d \<Rightarrow> (Inl (Propagated d), tr) | Inr x \<Rightarrow> f x tr)"
  by (simp add: seq_def ask_def split: sum.splits)

lemma ask_Inr_iff [simp]: "ask r tr = (Inr x, tr') \<longleftrightarrow> r = Inr x \<and> tr' = tr"
  by (auto simp: ask_def split: sum.splits)

lemma ask_Inl_iff [simp]:
  "ask r tr = (Inl e, tr') \<longleftrightarrow> (\<exists>s. r = Inl s \<and> e = Propagated s) \<and> tr' = tr"
  by (auto simp: ask_def split: sum.splits)

lemma seq_assoc [simp]: "seq (seq m f) g tr = seq m (\<lambda>x. seq (f x) g) tr"
  by (simp add: seq_def split: sum.splits prod.splits)

lemma math_exp_error: "math_exp x = Inl e \<Longrightarrow> e = OverflowError ''math range error''"
  by (cases x) (simp_all add: math_exp_def split: if_splits)


lemma seq_InrE:
  "seq m f tr = (Inr y, tr') \<Longrightarrow> \<exists>x tr1. m tr = (Inr x, tr1) \<and> f x tr1 = (Inr y, tr')"
  by (auto simp: seq_def split: prod.splits sum.splits)

lemma startup_validation_trace: "snd (startup_validation E d t tr) = tr"
  by (simp add: startup_validation_def ret_def raise_def split: sum.splits)


lemma startup_validation_same_trace: "startup_validation E d t tr = (r, tr') \<Longrightarrow> tr' = tr"
  using startup_validation_trace [of E d t tr] by simp

lemma load_and_prepare_Inr:
  assumes "load_and_prepare E d t tr = (Inr (model, tok, d', ds), tr')"
  shows "\<exists>m0 tok0.
     model_from_pretrained E checkpoint = Inr m0 \<and>
     tokenizer_from_pretrained E checkpoint = Inr tok0 \<and>
     tok = add_tokens [''</doc-s>''] True (add_tokens [''<doc-s>''] True tok0) \<and>
     model = resize_token_embeddings m0 (len tok) \<and>
     d' = d\<lparr>block_size := 4096\<rparr> \<and>
     TextDataset E tok ''train'' (train_data_file d) 4096 (local_rank t) = Inr ds \<and>
     tr' = tr @ [LoadModel checkpoint, LoadTokenizer checkpoint,
                 AddTokens [''<doc-s>''] True, AddTokens [''</doc-s>''] True,
                 NewTextDataset tok ''train'' (train_data_file d) 4096 (local_rank t),
                 ResizeTokenEmbeddings (len tok)]"
  using assms
  by (auto simp add: load_and_prepare_def get_dataset_def Let_def ret_def
           simp del: add_tokens.simps split: sum.splits)

lemma evaluate_and_report_Inr:
  assumes "evaluate_and_report E t trainer tr = (Inr res, tr')"
  shows "\<exists>out loss p.
     evaluate E trainer = Inr out \<and> map_of out ''loss'' = Some loss \<and> math_exp loss = Inr p \<and>
     open_w E (os_path_join (output_dir t) ''eval_results_lm.txt'') = Inr () \<and>
     res = [''perplexity'' \<mapsto> p] \<and>
     tr' = tr @ [Log INFO ''*** Evaluate ***'', Evaluate,
                 OpenWrite (os_path_join (output_dir t) ''eval_results_lm.txt''),
                 Log INFO ''***** Eval results *****'',
                 Log INFO (''  perplexity = '' @ str_float E p),
                 Write (os_path_join (output_dir t) ''eval_results_lm.txt'')
                   (''perplexity = '' @ str_float E p @ ''\<newline>'')]"
  using assms
  by (auto simp add: evaluate_and_report_def Let_def ret_def getitem_def
           split: sum.splits option.splits)


lemma call_Inr_iff [simp]: "call ev r tr = (Inr x, tr') \<longleftrightarrow> r = Inr x \<and> tr' = tr @ [ev]"
  by (auto simp: call_def split: sum.splits)

lemma emit_iff [simp]: "emit ev tr = (r, tr') \<longleftrightarrow> r = Inr () \<and> tr' = tr @ [ev]"
  by (auto simp: emit_def)

lemma ret_iff [simp]: "ret x tr = (r, tr') \<longleftrightarrow> r = Inr x \<and> tr' = tr"
  by (auto simp: ret_def)

lemma main_Inr:
  assumes "main E m d t = (Inr res, tr)"
  shows "\<exists>tok p.
     res = [''perplexity'' \<mapsto> p] \<and>
     filter is_file_event tr =
       [OpenWrite (os_path_join (output_dir t) ''eval_results_lm.txt''),
        Write (os_path_join (output_dir t) ''eval_results_lm.txt'')
          (''perplexity = '' @ str_float E p @ ''\<newline>'')] \<and>
     filter is_trainer_call tr =
       [Train (case model_name_or_path m of None \<Rightarrow> None
               | Some p \<Rightarrow> if isdir E p then Some p else None), Evaluate] \<and>
     NewTextDataset tok ''train'' (train_data_file d) 4096 (local_rank t) \<in> set tr"
  using assms unfolding main_def
  by (auto simp add: Let_def simp del: add_tokens.simps
        dest!: seq_InrE startup_validation_same_trace load_and_prepare_Inr evaluate_and_report_Inr
        split: sum.splits if_splits)


lemma seq_InlE:
  "seq m f tr = (Inl e, tr') \<Longrightarrow>
     m tr = (Inl e, tr') \<or> (\<exists>x tr1. m tr = (Inr x, tr1) \<and> f x tr1 = (Inl e, tr'))"
  by (auto simp: seq_def split: prod.splits sum.splits)

lemma call_Inl_iff [simp]:
  "call ev r tr = (Inl e, tr') \<longleftrightarrow> (\<exists>s. r = Inl s \<and> e = Propagated s) \<and> tr' = tr @ [ev]"
  by (auto simp: call_def split: sum.splits)

lemma load_and_prepare_Inl:
  "load_and_prepare E d t tr = (Inl e, tr') \<Longrightarrow> \<exists>s. e = Propagated s"
  by (auto simp add: load_and_prepare_def get_dataset_def Let_def
           simp del: add_tokens.simps split: sum.splits)

lemma evaluate_and_report_Inl:
  "evaluate_and_report E t trainer tr = (Inl e, tr') \<Longrightarrow>
     (\<exists>s. e = Propagated s) \<or> e = KeyError ''loss'' \<or> e = OverflowError ''math range error''"
  by (auto simp add: evaluate_and_report_def Let_def getitem_def
           split: sum.splits option.splits dest: math_exp_error)

lemma startup_validation_iff:
  "startup_validation E d t tr = (r, tr') \<longleftrightarrow> fst (startup_validation E d t tr) = r \<and> tr' = tr"
  using startup_validation_trace [of E d t tr] by (cases "startup_validation E d t tr") auto

lemma main_ValueError:
  assumes "main E m d t = (Inl (ValueError s), tr)"
  shows "tr = [] \<and> fst (startup_validation E d t []) = Inl (ValueError s)"
  using assms unfolding main_def
  by (auto simp add: Let_def startup_validation_iff simp del: add_tokens.simps
        dest!: seq_InlE seq_InrE load_and_prepare_Inl evaluate_and_report_Inl
        split: sum.splits if_splits)

lemma startup_validation_ValueError:
  "startup_validation E d t tr = (Inl (ValueError s), tr') \<longleftrightarrow>
     tr' = tr \<and>
     (if eval_data_file d = None \<and> do_eval t then s = missing_eval_file_message
      else s = output_dir_message (output_dir t) \<and> path_exists E (output_dir t) \<and>
           (\<exists>entries. listdir E (output_dir t) = Inr entries \<and> entries \<noteq> []) \<and>
           do_train t \<and> \<not> overwrite_output_dir t)"
  by (auto simp add: startup_validation_def raise_def ret_def split: sum.splits)

lemma messages_differ: "missing_eval_file_message \<noteq> output_dir_message dir"
  by (simp add: missing_eval_file_message_def output_dir_message_def)

subsection \<open>Startup validation\<close>

text \<open>
  C1. If evaluation is requested and no evaluation file is given, \<open>main\<close> raises the
  \<open>ValueError\<close> that names \<open>--eval_data_file\<close>, and the trace is empty: no model,
  tokenizer or dataset has been touched. In every other configuration \<open>main\<close> does
  not end with this error.
\<close>

theorem main_requires_eval_data_file:
  "(do_eval t \<and> eval_data_file d = None \<longrightarrow>
      main E m d t = (Inl (ValueError missing_eval_file_message), []))
   \<and> (\<not> (do_eval t \<and> eval_data_file d = None) \<longrightarrow>
      fst (main E m d t) \<noteq> Inl (ValueError missing_eval_file_message))
   \<and> missing_eval_file_message =
      ''Cannot do evaluation without an evaluation data file. Either supply a file to ''
        @ ''--eval_data_file'' @ '' or remove the --do_eval argument.''"
proof (intro conjI impI)
  assume "do_eval t \<and> eval_data_file d = None"
  then show "main E m d t = (Inl (ValueError missing_eval_file_message), [])"
    by (simp add: main_def startup_validation_def)
next
  assume ok: "\<not> (do_eval t \<and> eval_data_file d = None)"
  show "fst (main E m d t) \<noteq> Inl (ValueError missing_eval_file_message)"
  proof
    assume "fst (main E m d t) = Inl (ValueError missing_eval_file_message)"
    then have "main E m d t = (Inl (ValueError missing_eval_file_message), snd (main E m d t))"
      by (simp add: prod_eq_iff)
    then have "fst (startup_validation E d t []) = Inl (ValueError missing_eval_file_message)"
      by (blast dest: main_ValueError)
    then have "startup_validation E d t [] = (Inl (ValueError missing_eval_file_message), [])"
      by (simp add: startup_validation_iff)
    with ok show False
      by (auto simp add: startup_validation_ValueError messages_differ)
  qed
next
  show "missing_eval_file_message =
      ''Cannot do evaluation without an evaluation data file. Either supply a file to ''
        @ ''--eval_data_file'' @ '' or remove the --do_eval argument.''"
    by (simp add: missing_eval_file_message_def)
qed

theorem main_requires_eval_data_file_witness:
  "main sample_env default_ModelArguments default_DataTrainingArguments
       (sample_training_args\<lparr>do_eval := True\<rparr>)
     = (Inl (ValueError missing_eval_file_message), [])
   \<and> fst (main sample_env default_ModelArguments default_DataTrainingArguments sample_training_args)
     \<noteq> Inl (ValueError missing_eval_file_message)"
  using main_requires_eval_data_file
          [where t = "sample_training_args\<lparr>do_eval := True\<rparr>"
             and d = default_DataTrainingArguments and E = sample_env
             and m = default_ModelArguments]
        main_requires_eval_data_file
          [where t = sample_training_args and d = default_DataTrainingArguments
             and E = sample_env and m = default_ModelArguments]
  by (simp add: sample_training_args_def default_DataTrainingArguments_def)

lemma no_config_no_start:
  "BasicConfig (if local_rank t \<in> {- 1, 0} then INFO else WARN) \<notin> set (snd (main E m d t)) \<Longrightarrow>
     fst (startup_validation E d t []) \<noteq> Inr ()"
  by (simp add: main_def startup_validation_def load_and_prepare_def get_dataset_def
        evaluate_and_report_def Let_def ret_def getitem_def raise_def
      del: add_tokens.simps split: sum.splits if_splits option.splits prod.splits)

lemma main_not_ValueError:
  assumes "fst (startup_validation E d t []) \<noteq> Inl (ValueError s)"
  shows "fst (main E m d t) \<noteq> Inl (ValueError s)"
proof
  assume "fst (main E m d t) = Inl (ValueError s)"
  then have "main E m d t = (Inl (ValueError s), snd (main E m d t))"
    by (simp add: prod_eq_iff)
  then have "fst (startup_validation E d t []) = Inl (ValueError s)"
    by (blast dest: main_ValueError)
  with assms show False by simp
qed

text \<open>
  C2. If the output directory exists and is not empty, training is requested and
  overwriting is not allowed, \<open>main\<close> ends with a \<open>ValueError\<close> and an empty trace
  (the error of the first check if that one fails too, else the error that names the
  directory). With \<open>overwrite_output_dir\<close> set, \<open>main\<close> never ends with the
  output-directory error; in the same situation the two checks of lines 126--140
  pass without an exception, and the run goes on to line 142, the configuration of
  the logging.
\<close>

theorem main_protects_output_dir:
  "(path_exists E (output_dir t) \<and> listdir E (output_dir t) = Inr entries \<and> entries \<noteq> [] \<and>
    do_train t \<and> \<not> overwrite_output_dir t \<longrightarrow>
      main E m d t =
        (Inl (ValueError (if eval_data_file d = None \<and> do_eval t then missing_eval_file_message
                          else output_dir_message (output_dir t))), []))
   \<and> (overwrite_output_dir t \<longrightarrow>
      fst (main E m d t) \<noteq> Inl (ValueError (output_dir_message (output_dir t))))
   \<and> (path_exists E (output_dir t) \<and> listdir E (output_dir t) = Inr entries \<and> entries \<noteq> [] \<and>
       do_train t \<and> overwrite_output_dir t \<and> \<not> (eval_data_file d = None \<and> do_eval t) \<longrightarrow>
      startup_validation E d t [] = (Inr (), []) \<and>
      BasicConfig (if local_rank t \<in> {- 1, 0} then INFO else WARN) \<in> set (snd (main E m d t)))"
proof (intro conjI impI)
  assume "path_exists E (output_dir t) \<and> listdir E (output_dir t) = Inr entries \<and> entries \<noteq> [] \<and>
    do_train t \<and> \<not> overwrite_output_dir t"
  then show "main E m d t =
        (Inl (ValueError (if eval_data_file d = None \<and> do_eval t then missing_eval_file_message
                          else output_dir_message (output_dir t))), [])"
    by (simp add: main_def startup_validation_def)
next
  assume ow: "overwrite_output_dir t"
  have "startup_validation E d t [] \<noteq> (Inl (ValueError (output_dir_message (output_dir t))), [])"
    using ow messages_differ [of "output_dir t"]
    by (auto simp add: startup_validation_ValueError)
  then have "fst (startup_validation E d t []) \<noteq> Inl (ValueError (output_dir_message (output_dir t)))"
    by (simp add: startup_validation_iff)
  then show "fst (main E m d t) \<noteq> Inl (ValueError (output_dir_message (output_dir t)))"
    by (rule main_not_ValueError)
next
  assume "path_exists E (output_dir t) \<and> listdir E (output_dir t) = Inr entries \<and> entries \<noteq> [] \<and>
       do_train t \<and> overwrite_output_dir t \<and> \<not> (eval_data_file d = None \<and> do_eval t)"
  then show "startup_validation E d t [] = (Inr (), [])"
    by (auto simp add: startup_validation_def ret_def)
next
  assume "path_exists E (output_dir t) \<and> listdir E (output_dir t) = Inr entries \<and> entries \<noteq> [] \<and>
       do_train t \<and> overwrite_output_dir t \<and> \<not> (eval_data_file d = None \<and> do_eval t)"
  then have "fst (startup_validation E d t []) = Inr ()"
    by (auto simp add: startup_validation_def ret_def)
  then show "BasicConfig (if local_rank t \<in> {- 1, 0} then INFO else WARN) \<in> set (snd (main E m d t))"
    using no_config_no_start [of t E m d] by blast
qed

theorem main_protects_output_dir_witness:
  "main sample_env default_ModelArguments default_DataTrainingArguments
       (sample_training_args\<lparr>output_dir := ''old_run'', do_train := True\<rparr>)
     = (Inl (ValueError (output_dir_message ''old_run'')), [])
   \<and> fst (main sample_env default_ModelArguments default_DataTrainingArguments
       (sample_training_args\<lparr>output_dir := ''old_run'', do_train := True, overwrite_output_dir := True\<rparr>))
     \<noteq> Inl (ValueError (output_dir_message ''old_run''))
   \<and> startup_validation sample_env default_DataTrainingArguments
       (sample_training_args\<lparr>output_dir := ''old_run'', do_train := True, overwrite_output_dir := True\<rparr>) []
     = (Inr (), [])
   \<and> BasicConfig INFO \<in> set (snd (main sample_env default_ModelArguments default_DataTrainingArguments
       (sample_training_args\<lparr>output_dir := ''old_run'', do_train := True, overwrite_output_dir := True\<rparr>)))"
  using main_protects_output_dir
          [where t = "sample_training_args\<lparr>output_dir := ''old_run'', do_train := True\<rparr>"
             and d = default_DataTrainingArguments and E = sample_env
             and m = default_ModelArguments and entries = "[''checkpoint-500'']"]
        main_protects_output_dir
          [where t = "sample_training_args\<lparr>output_dir := ''old_run'', do_train := True,
                        overwrite_output_dir := True\<rparr>"
             and d = default_DataTrainingArguments and E = sample_env
             and m = default_ModelArguments and entries = "[''checkpoint-500'']"]
  by (simp add: sample_training_args_def default_DataTrainingArguments_def sample_env_def)

subsection \<open>Events of a run\<close>

lemma dataset_events:
  "NewTextDataset tok s f b r \<in> set (snd (main E m d t)) \<Longrightarrow>
     b = 4096 \<and> s = ''train'' \<and> f = train_data_file d \<and> r = local_rank t"
  by (simp add: main_def startup_validation_def load_and_prepare_def get_dataset_def
        evaluate_and_report_def Let_def ret_def getitem_def raise_def
      del: add_tokens.simps split: sum.splits if_splits option.splits)

lemma load_model_events: "LoadModel s \<in> set (snd (main E m d t)) \<Longrightarrow> s = checkpoint"
  by (simp add: main_def startup_validation_def load_and_prepare_def get_dataset_def
        evaluate_and_report_def Let_def ret_def getitem_def raise_def
      del: add_tokens.simps split: sum.splits if_splits option.splits)

lemma load_tokenizer_events: "LoadTokenizer s \<in> set (snd (main E m d t)) \<Longrightarrow> s = checkpoint"
  by (simp add: main_def startup_validation_def load_and_prepare_def get_dataset_def
        evaluate_and_report_def Let_def ret_def getitem_def raise_def
      del: add_tokens.simps split: sum.splits if_splits option.splits)

lemma main_block_size: "main E m (d\<lparr>block_size := b'\<rparr>) t = main E m d t"
  by (simp add: main_def startup_validation_def load_and_prepare_def)

lemma main_unused_names:
  "main E (m\<lparr>config_name := c, tokenizer_name := n\<rparr>) d t = main E m d t"
  by (simp add: main_def)

lemma main_Inr_loads:
  assumes "main E m d t = (Inr res, tr)"
  shows "filter is_load tr = [LoadModel checkpoint, LoadTokenizer checkpoint]"
  using assms unfolding main_def
  by (auto simp add: Let_def simp del: add_tokens.simps
        dest!: seq_InrE startup_validation_same_trace load_and_prepare_Inr evaluate_and_report_Inr
        split: sum.splits if_splits)

lemma main_resume_only:
  assumes "(case model_name_or_path m' of None \<Rightarrow> None | Some p \<Rightarrow> if isdir E p then Some p else None)
         = (case model_name_or_path m of None \<Rightarrow> None | Some p \<Rightarrow> if isdir E p then Some p else None)"
  shows "main E m' d t = main E m d t"
  unfolding main_def Let_def using assms by (simp only:)

lemma write_results_lines:
  "set keys \<subseteq> fst ` set result \<Longrightarrow>
   write_results str path result keys tr =
     (Inr (), tr @ concat (map (\<lambda>k. [Log INFO (''  '' @ k @ '' = '' @ str (the (map_of result k))),
                                       Write path (k @ '' = '' @ str (the (map_of result k)) @ ''\<newline>'')])
                              keys))"
proof (induction keys arbitrary: tr)
  case Nil
  then show ?case by simp
next
  case (Cons k keys)
  then obtain v where "map_of result k = Some v"
    by (cases "map_of result k") (auto simp: map_of_eq_None_iff)
  with Cons show ?case by (simp add: getitem_def)
qed

lemma os_path_join_file:
  "os_path_join dir ''eval_results_lm.txt''
     = (if dir = [] \<or> last dir = CHR ''/'' then dir else dir @ ''/'') @ ''eval_results_lm.txt''"
  by (simp add: os_path_join_def)

lemma sample_run:
  "main sample_env default_ModelArguments default_DataTrainingArguments sample_training_args
     = (Inr [''perplexity'' \<mapsto> Finite 1], sample_trace @ sample_report)"
  by (simp add: main_def startup_validation_def load_and_prepare_def get_dataset_def
     evaluate_and_report_def Let_def getitem_def
     sample_env_def default_ModelArguments_def default_DataTrainingArguments_def
     sample_training_args_def sample_tokenizer_def sample_model_def checkpoint_def math_exp_def DBL_OVERFLOW_def
     len_def resize_token_embeddings_def os_path_join_def prepared_tokenizer_def sample_trace_def sample_report_def)

subsection \<open>Block size\<close>

text \<open>
  C4. Every dataset that a run of \<open>main\<close> constructs is the training dataset, built
  with block size 4096, from \<open>train_data_file\<close> and with the configured rank; a run
  that returns has constructed it; and \<open>main\<close> does not depend on the configured
  block size at all.
\<close>

theorem main_forces_block_size:
  "(NewTextDataset tok s f b r \<in> set (snd (main E m d t)) \<longrightarrow>
      b = 4096 \<and> s = ''train'' \<and> f = train_data_file d \<and> r = local_rank t)
   \<and> (main E m d t = (Inr res, tr) \<longrightarrow>
      (\<exists>tok'. NewTextDataset tok' ''train'' (train_data_file d) 4096 (local_rank t) \<in> set tr))
   \<and> main E m (d\<lparr>block_size := b'\<rparr>) t = main E m d t"
proof -
  have a: "NewTextDataset tok s f b r \<in> set (snd (main E m d t)) \<longrightarrow>
      b = 4096 \<and> s = ''train'' \<and> f = train_data_file d \<and> r = local_rank t"
    using dataset_events [of tok s f b r E m d t] by (rule impI)
  have b: "main E m d t = (Inr res, tr) \<longrightarrow>
      (\<exists>tok'. NewTextDataset tok' ''train'' (train_data_file d) 4096 (local_rank t) \<in> set tr)"
  proof
    assume "main E m d t = (Inr res, tr)"
    from main_Inr [OF this] obtain tok' where
      "NewTextDataset tok' ''train'' (train_data_file d) 4096 (local_rank t) \<in> set tr"
      by (elim exE conjE)
    then show "\<exists>tok'. NewTextDataset tok' ''train'' (train_data_file d) 4096 (local_rank t) \<in> set tr"
      by (rule exI)
  qed
  have c: "main E m (d\<lparr>block_size := b'\<rparr>) t = main E m d t"
    by (rule main_block_size)
  show ?thesis by (rule conjI [OF a conjI [OF b c]])
qed

theorem main_forces_block_size_witness:
  "block_size default_DataTrainingArguments = - 1
   \<and> NewTextDataset prepared_tokenizer ''train'' (Some ''train.txt.src'') 4096 (- 1)
       \<in> set (snd (main sample_env default_ModelArguments default_DataTrainingArguments
                     sample_training_args))
   \<and> Some ''train.txt.src'' = train_data_file default_DataTrainingArguments
   \<and> - 1 = local_rank sample_training_args"
proof -
  have mem: "NewTextDataset prepared_tokenizer ''train'' (Some ''train.txt.src'') 4096 (- 1)
       \<in> set (snd (main sample_env default_ModelArguments default_DataTrainingArguments
                     sample_training_args))"
    by (simp add: sample_run sample_trace_def)
  have "Some ''train.txt.src'' = train_data_file default_DataTrainingArguments
        \<and> - 1 = local_rank sample_training_args"
    using main_forces_block_size
          [where tok = prepared_tokenizer and s = "''train''" and f = "Some ''train.txt.src''"
             and b = 4096 and r = "- 1" and E = sample_env and m = default_ModelArguments
             and d = default_DataTrainingArguments and t = sample_training_args,
           THEN conjunct1, THEN mp, OF mem]
    by simp
  moreover have "block_size default_DataTrainingArguments = - 1"
    by (simp add: default_DataTrainingArguments_def)
  ultimately show ?thesis using mem by simp
qed

subsection \<open>The checkpoint\<close>

text \<open>
  C7. In every run of \<open>main\<close>, whatever the model arguments are, each model load and
  each tokenizer load names the fixed identifier \<open>allenai/longformer-base-4096\<close>; a run
  that returns has loaded exactly the model and the tokenizer of that identifier.
  \<open>main\<close> never reads \<open>config_name\<close> and \<open>tokenizer_name\<close>, and it reads
  \<open>model_name_or_path\<close> only for the resume path handed to \<open>trainer.train\<close>: two
  model configurations with the same resume path give the same run.
\<close>

theorem main_loads_fixed_checkpoint:
  "(LoadModel s \<in> set (snd (main E m d t)) \<longrightarrow> s = checkpoint)
   \<and> (LoadTokenizer s \<in> set (snd (main E m d t)) \<longrightarrow> s = checkpoint)
   \<and> (main E m d t = (Inr res, tr) \<longrightarrow>
        filter is_load tr = [LoadModel checkpoint, LoadTokenizer checkpoint])
   \<and> main E (m\<lparr>config_name := c, tokenizer_name := n\<rparr>) d t = main E m d t
   \<and> ((case model_name_or_path m' of None \<Rightarrow> None | Some p \<Rightarrow> if isdir E p then Some p else None)
        = (case model_name_or_path m of None \<Rightarrow> None | Some p \<Rightarrow> if isdir E p then Some p else None)
      \<longrightarrow> main E m' d t = main E m d t)
   \<and> checkpoint = ''allenai/longformer-base-4096''"
proof -
  have a: "LoadModel s \<in> set (snd (main E m d t)) \<longrightarrow> s = checkpoint"
    using load_model_events [of s E m d t] by (rule impI)
  have b: "LoadTokenizer s \<in> set (snd (main E m d t)) \<longrightarrow> s = checkpoint"
    using load_tokenizer_events [of s E m d t] by (rule impI)
  have c: "main E m d t = (Inr res, tr) \<longrightarrow>
        filter is_load tr = [LoadModel checkpoint, LoadTokenizer checkpoint]"
    using main_Inr_loads [of E m d t res tr] by (rule impI)
  have d: "main E (m\<lparr>config_name := c, tokenizer_name := n\<rparr>) d t = main E m d t"
    by (rule main_unused_names)
  have e: "(case model_name_or_path m' of None \<Rightarrow> None | Some p \<Rightarrow> if isdir E p then Some p else None)
        = (case model_name_or_path m of None \<Rightarrow> None | Some p \<Rightarrow> if isdir E p then Some p else None)
      \<longrightarrow> main E m' d t = main E m d t"
    using main_resume_only [where m' = m' and E = E and m = m and d = d and t = t] by (rule impI)
  have f: "checkpoint = ''allenai/longformer-base-4096''"
    by (rule checkpoint_def)
  show ?thesis
    by (rule conjI [OF a conjI [OF b conjI [OF c conjI [OF d conjI [OF e f]]]]])
qed

theorem main_loads_fixed_checkpoint_witness:
  "model_name_or_path default_ModelArguments
     = Some ''/home/t-avic/PycharmProjects/coref_former/longformer-base-4096/''
   \<and> filter is_load (snd (main sample_env default_ModelArguments default_DataTrainingArguments
                             sample_training_args))
     = [LoadModel checkpoint, LoadTokenizer checkpoint]
   \<and> main sample_env (default_ModelArguments\<lparr>model_name_or_path := None\<rparr>)
        default_DataTrainingArguments sample_training_args
     = main sample_env default_ModelArguments default_DataTrainingArguments sample_training_args"
proof -
  note inst = main_loads_fixed_checkpoint
          [where E = sample_env and m = default_ModelArguments and d = default_DataTrainingArguments
             and t = sample_training_args and res = "[''perplexity'' \<mapsto> Finite 1]"
             and tr = "sample_trace @ sample_report"
             and m' = "default_ModelArguments\<lparr>model_name_or_path := None\<rparr>"]
  have loads: "filter is_load (sample_trace @ sample_report) = [LoadModel checkpoint, LoadTokenizer checkpoint]"
    using inst [THEN conjunct2, THEN conjunct2, THEN conjunct1, THEN mp, OF sample_run] .
  have resume: "(case model_name_or_path (default_ModelArguments\<lparr>model_name_or_path := None\<rparr>) of
                   None \<Rightarrow> None | Some p \<Rightarrow> if isdir sample_env p then Some p else None)
        = (case model_name_or_path default_ModelArguments of
                   None \<Rightarrow> None | Some p \<Rightarrow> if isdir sample_env p then Some p else None)"
    by (simp add: default_ModelArguments_def sample_env_def)
  have same: "main sample_env (default_ModelArguments\<lparr>model_name_or_path := None\<rparr>)
        default_DataTrainingArguments sample_training_args
     = main sample_env default_ModelArguments default_DataTrainingArguments sample_training_args"
    using inst [THEN conjunct2, THEN conjunct2, THEN conjunct2, THEN conjunct2, THEN conjunct1,
                THEN mp, OF resume] .
  have "model_name_or_path default_ModelArguments
     = Some ''/home/t-avic/PycharmProjects/coref_former/longformer-base-4096/''"
    by (simp add: default_ModelArguments_def)
  then show ?thesis using loads same by (simp add: sample_run)
qed

subsection \<open>Training and evaluation\<close>

text \<open>
  C10. A run of \<open>main\<close> that returns has called \<open>trainer.train\<close> and then
  \<open>trainer.evaluate\<close>, once each, whatever \<open>do_train\<close> and \<open>do_eval\<close> are. In
  particular, with \<open>do_eval\<close> false the first startup check does not fire, even without
  an evaluation file, and the evaluation is still made.
\<close>

theorem main_trains_and_evaluates_regardless_of_flags:
  "(main E m d t = (Inr res, tr) \<longrightarrow>
      filter is_trainer_call tr =
        [Train (case model_name_or_path m of None \<Rightarrow> None
                | Some p \<Rightarrow> if isdir E p then Some p else None), Evaluate])
   \<and> (\<not> do_eval t \<longrightarrow> fst (main E m d t) \<noteq> Inl (ValueError missing_eval_file_message))"
proof -
  have a: "main E m d t = (Inr res, tr) \<longrightarrow>
      filter is_trainer_call tr =
        [Train (case model_name_or_path m of None \<Rightarrow> None
                | Some p \<Rightarrow> if isdir E p then Some p else None), Evaluate]"
  proof
    assume "main E m d t = (Inr res, tr)"
    from main_Inr [OF this] show "filter is_trainer_call tr =
        [Train (case model_name_or_path m of None \<Rightarrow> None
                | Some p \<Rightarrow> if isdir E p then Some p else None), Evaluate]"
      by (elim exE conjE)
  qed
  have b: "\<not> do_eval t \<longrightarrow> fst (main E m d t) \<noteq> Inl (ValueError missing_eval_file_message)"
  proof
    assume "\<not> do_eval t"
    then have "startup_validation E d t [] \<noteq> (Inl (ValueError missing_eval_file_message), [])"
      using messages_differ [of "output_dir t"] by (auto simp add: startup_validation_ValueError)
    then have "fst (startup_validation E d t []) \<noteq> Inl (ValueError missing_eval_file_message)"
      by (simp add: startup_validation_iff)
    then show "fst (main E m d t) \<noteq> Inl (ValueError missing_eval_file_message)"
      by (rule main_not_ValueError)
  qed
  show ?thesis by (rule conjI [OF a b])
qed

theorem main_trains_and_evaluates_regardless_of_flags_witness:
  "\<not> do_train sample_training_args \<and> \<not> do_eval sample_training_args
   \<and> eval_data_file default_DataTrainingArguments = None
   \<and> fst (main sample_env default_ModelArguments default_DataTrainingArguments sample_training_args)
       = Inr [''perplexity'' \<mapsto> Finite 1]
   \<and> filter is_trainer_call
        (snd (main sample_env default_ModelArguments default_DataTrainingArguments sample_training_args))
       = [Train None, Evaluate]"
proof -
  have "filter is_trainer_call (sample_trace @ sample_report) =
        [Train (case model_name_or_path default_ModelArguments of None \<Rightarrow> None
                | Some p \<Rightarrow> if isdir sample_env p then Some p else None), Evaluate]"
    using main_trains_and_evaluates_regardless_of_flags
            [where E = sample_env and m = default_ModelArguments
               and d = default_DataTrainingArguments and t = sample_training_args,
             THEN conjunct1, THEN mp, OF sample_run] .
  then have "filter is_trainer_call (sample_trace @ sample_report) = [Train None, Evaluate]"
    by (simp add: sample_env_def default_ModelArguments_def)
  then have calls: "filter is_trainer_call
        (snd (main sample_env default_ModelArguments default_DataTrainingArguments sample_training_args))
       = [Train None, Evaluate]"
    by (simp only: sample_run snd_conv)
  have returned: "fst (main sample_env default_ModelArguments default_DataTrainingArguments
                    sample_training_args) = Inr [''perplexity'' \<mapsto> Finite 1]"
    by (simp only: sample_run fst_conv)
  have f1: "\<not> do_train sample_training_args" and f2: "\<not> do_eval sample_training_args"
    by (simp_all add: sample_training_args_def)
  have f3: "eval_data_file default_DataTrainingArguments = None"
    by (simp add: default_DataTrainingArguments_def)
  show ?thesis
    by (rule conjI [OF f1 conjI [OF f2 conjI [OF f3 conjI [OF returned calls]]]])
qed

subsection \<open>The results file\<close>

text \<open>
  C9. A run of \<open>main\<close> that returns has returned the mapping with the single key
  \<open>perplexity\<close>, and its file events are: open \<open>eval_results_lm.txt\<close> in the output
  directory for writing, and write the one line \<open>perplexity = v\<close>, where \<open>v\<close> is
  \<open>str\<close> of the returned value. The path is the output directory, a slash unless
  the directory is empty or ends with one, and the file name. The loop that writes
  the lines, run on any result, writes one line \<open>key = value\<close> per key, in sorted
  key order.
\<close>

theorem main_writes_results_file:
  "(main E m d t = (Inr res, tr) \<longrightarrow>
      (\<exists>p. res = [''perplexity'' \<mapsto> p] \<and>
           filter is_file_event tr =
             [OpenWrite (os_path_join (output_dir t) ''eval_results_lm.txt''),
              Write (os_path_join (output_dir t) ''eval_results_lm.txt'')
                (''perplexity = '' @ str_float E p @ ''\<newline>'')]))
   \<and> os_path_join dir ''eval_results_lm.txt''
       = (if dir = [] \<or> last dir = CHR ''/'' then dir else dir @ ''/'') @ ''eval_results_lm.txt''
   \<and> write_results str path result (sort (map fst result)) tr0 =
       (Inr (), tr0 @ concat (map (\<lambda>k. [Log INFO (''  '' @ k @ '' = '' @ str (the (map_of result k))),
                                          Write path (k @ '' = '' @ str (the (map_of result k)) @ ''\<newline>'')])
                                 (sort (map fst result))))
   \<and> sorted (sort (map fst result))"
proof -
  have a: "main E m d t = (Inr res, tr) \<longrightarrow>
      (\<exists>p. res = [''perplexity'' \<mapsto> p] \<and>
           filter is_file_event tr =
             [OpenWrite (os_path_join (output_dir t) ''eval_results_lm.txt''),
              Write (os_path_join (output_dir t) ''eval_results_lm.txt'')
                (''perplexity = '' @ str_float E p @ ''\<newline>'')])"
  proof
    assume "main E m d t = (Inr res, tr)"
    from main_Inr [OF this] obtain p where
      "res = [''perplexity'' \<mapsto> p]"
      "filter is_file_event tr =
             [OpenWrite (os_path_join (output_dir t) ''eval_results_lm.txt''),
              Write (os_path_join (output_dir t) ''eval_results_lm.txt'')
                (''perplexity = '' @ str_float E p @ ''\<newline>'')]"
      by (elim exE conjE)
    then show "\<exists>p. res = [''perplexity'' \<mapsto> p] \<and>
           filter is_file_event tr =
             [OpenWrite (os_path_join (output_dir t) ''eval_results_lm.txt''),
              Write (os_path_join (output_dir t) ''eval_results_lm.txt'')
                (''perplexity = '' @ str_float E p @ ''\<newline>'')]"
      by (intro exI conjI)
  qed
  have b: "os_path_join dir ''eval_results_lm.txt''
       = (if dir = [] \<or> last dir = CHR ''/'' then dir else dir @ ''/'') @ ''eval_results_lm.txt''"
    by (rule os_path_join_file)
  have c: "write_results str path result (sort (map fst result)) tr0 =
       (Inr (), tr0 @ concat (map (\<lambda>k. [Log INFO (''  '' @ k @ '' = '' @ str (the (map_of result k))),
                                          Write path (k @ '' = '' @ str (the (map_of result k)) @ ''\<newline>'')])
                                 (sort (map fst result))))"
    by (rule write_results_lines) simp
  have d: "sorted (sort (map fst result))"
    by simp
  show ?thesis by (rule conjI [OF a conjI [OF b conjI [OF c d]]])
qed

theorem main_writes_results_file_witness:
  "filter is_file_event
     (snd (main sample_env default_ModelArguments default_DataTrainingArguments sample_training_args))
     = [OpenWrite ''out/eval_results_lm.txt'',
        Write ''out/eval_results_lm.txt'' ''perplexity = 1.0\<newline>'']
   \<and> write_results (str_float sample_env) ''f'' [(''perplexity'', Finite 1), (''loss'', Finite 0)]
         (sort [''perplexity'', ''loss'']) []
     = (Inr (), [Log INFO ''  loss = other'', Write ''f'' ''loss = other\<newline>'',
                 Log INFO ''  perplexity = 1.0'', Write ''f'' ''perplexity = 1.0\<newline>''])"
proof -
  note inst = main_writes_results_file
      [where E = sample_env and m = default_ModelArguments and d = default_DataTrainingArguments
         and t = sample_training_args and res = "[''perplexity'' \<mapsto> Finite 1]"
         and tr = "sample_trace @ sample_report"
         and str = "str_float sample_env" and path = "''f''"
         and result = "[(''perplexity'', Finite 1), (''loss'', Finite 0)]" and ?tr0.0 = "[]"]
  from inst [THEN conjunct1, THEN mp, OF sample_run] obtain p where
    p: "[''perplexity'' \<mapsto> Finite 1] = [''perplexity'' \<mapsto> p]"
    and ev: "filter is_file_event (sample_trace @ sample_report) =
             [OpenWrite (os_path_join (output_dir sample_training_args) ''eval_results_lm.txt''),
              Write (os_path_join (output_dir sample_training_args) ''eval_results_lm.txt'')
                (''perplexity = '' @ str_float sample_env p @ ''\<newline>'')]"
    by (elim exE conjE)
  from p have "p = Finite 1" by (auto dest: map_upd_eqD1)
  with ev have a: "filter is_file_event (sample_trace @ sample_report)
     = [OpenWrite ''out/eval_results_lm.txt'',
        Write ''out/eval_results_lm.txt'' ''perplexity = 1.0\<newline>'']"
    by (simp add: os_path_join_def sample_training_args_def sample_env_def)
  have s: "sort [''perplexity'', ''loss''] = [''loss'', ''perplexity'']"
    by code_simp
  from inst [THEN conjunct2, THEN conjunct2, THEN conjunct1]
  have b: "write_results (str_float sample_env) ''f'' [(''perplexity'', Finite 1), (''loss'', Finite 0)]
         (sort [''perplexity'', ''loss'']) []
     = (Inr (), [Log INFO ''  loss = other'', Write ''f'' ''loss = other\<newline>'',
                 Log INFO ''  perplexity = 1.0'', Write ''f'' ''perplexity = 1.0\<newline>''])"
    by (simp add: s sample_env_def)
  from a have a': "filter is_file_event
     (snd (main sample_env default_ModelArguments default_DataTrainingArguments sample_training_args))
     = [OpenWrite ''out/eval_results_lm.txt'',
        Write ''out/eval_results_lm.txt'' ''perplexity = 1.0\<newline>'']"
    by (simp only: sample_run snd_conv)
  show ?thesis by (rule conjI [OF a' b])
qed

subsection \<open>Dataset acquisition\<close>

text \<open>
  C3. With \<open>evaluate\<close> true, \<open>get_dataset\<close> constructs the dataset from
  \<open>eval_data_file\<close> with the split tag \<open>dev\<close>; with \<open>evaluate\<close> false, from
  \<open>train_data_file\<close> with the tag \<open>train\<close>. In both cases it passes the given
  tokenizer, the configured block size and the given rank, and the result does not
  depend on the other file field, which may hold any value or \<open>None\<close>.
\<close>

theorem get_dataset_selects_file:
  "get_dataset E (args\<lparr>train_data_file := x\<rparr>) tok True rank
     = call (NewTextDataset tok ''dev'' (eval_data_file args) (block_size args) rank)
            (TextDataset E tok ''dev'' (eval_data_file args) (block_size args) rank)
   \<and> get_dataset E (args\<lparr>eval_data_file := y\<rparr>) tok False rank
     = call (NewTextDataset tok ''train'' (train_data_file args) (block_size args) rank)
            (TextDataset E tok ''train'' (train_data_file args) (block_size args) rank)"
  by (simp add: get_dataset_def Let_def)

theorem get_dataset_selects_file_witness:
  "get_dataset sample_env (default_DataTrainingArguments\<lparr>train_data_file := None\<rparr>)
       sample_tokenizer True 0 []
     = (Inl (Propagated ''TypeError''), [NewTextDataset sample_tokenizer ''dev'' None (- 1) 0])
   \<and> get_dataset sample_env (default_DataTrainingArguments\<lparr>eval_data_file := None\<rparr>)
       sample_tokenizer False 0 []
     = (Inr (), [NewTextDataset sample_tokenizer ''train'' (Some ''train.txt.src'') (- 1) 0])"
  using get_dataset_selects_file
          [where E = sample_env and args = default_DataTrainingArguments and x = None and y = None
             and tok = sample_tokenizer and rank = 0]
  by (simp add: default_DataTrainingArguments_def sample_env_def call_def Let_def)

subsection \<open>The sentinel tokens\<close>

lemma add_tokens_single:
  "add_tokens [tk] sp tok =
     tok\<lparr> vocab := (if tk \<in> set (vocab tok) then vocab tok else vocab tok @ [tk]),
          special := (if sp then List.insert tk (special tok) else special tok) \<rparr>"
  by simp

lemma add_tokens_distinct:
  "distinct (vocab tok) \<Longrightarrow> distinct (vocab (add_tokens tks sp tok))"
  by (induction tks sp tok rule: add_tokens.induct) simp_all

text \<open>
  C6. Adding a token that is in the vocabulary leaves the vocabulary and its size as
  they are; adding tokens to a vocabulary without duplicates gives a vocabulary
  without duplicates; adding a token twice is adding it once, and so is registering
  the two sentinel tokens twice.
\<close>

theorem add_tokens_idempotent:
  "(tk \<in> set (vocab tok) \<longrightarrow>
      vocab (add_tokens [tk] sp tok) = vocab tok \<and> len (add_tokens [tk] sp tok) = len tok)
   \<and> (distinct (vocab tok) \<longrightarrow> distinct (vocab (add_tokens tks sp tok)))
   \<and> add_tokens [tk] sp (add_tokens [tk] sp tok) = add_tokens [tk] sp tok
   \<and> add_tokens [''</doc-s>''] True (add_tokens [''<doc-s>''] True
        (add_tokens [''</doc-s>''] True (add_tokens [''<doc-s>''] True tok)))
      = add_tokens [''</doc-s>''] True (add_tokens [''<doc-s>''] True tok)"
proof -
  have a: "tk \<in> set (vocab tok) \<longrightarrow>
      vocab (add_tokens [tk] sp tok) = vocab tok \<and> len (add_tokens [tk] sp tok) = len tok"
    by (simp add: len_def)
  have b: "distinct (vocab tok) \<longrightarrow> distinct (vocab (add_tokens tks sp tok))"
    using add_tokens_distinct [of tok tks sp] by (rule impI)
  have c: "add_tokens [tk] sp (add_tokens [tk] sp tok) = add_tokens [tk] sp tok"
    by simp
  have d: "add_tokens [''</doc-s>''] True (add_tokens [''<doc-s>''] True
        (add_tokens [''</doc-s>''] True (add_tokens [''<doc-s>''] True tok)))
      = add_tokens [''</doc-s>''] True (add_tokens [''<doc-s>''] True tok)"
    by simp
  show ?thesis by (rule conjI [OF a conjI [OF b conjI [OF c d]]])
qed

theorem add_tokens_idempotent_witness:
  "''<doc-s>'' \<in> set (vocab prepared_tokenizer) \<and> distinct (vocab prepared_tokenizer)
   \<and> vocab (add_tokens [''<doc-s>''] True prepared_tokenizer) = vocab prepared_tokenizer
   \<and> len (add_tokens [''<doc-s>''] True prepared_tokenizer) = 5
   \<and> distinct (vocab (add_tokens [''<doc-s>'', ''</doc-s>''] True prepared_tokenizer))"
  using add_tokens_idempotent
          [where tk = "''<doc-s>''" and tok = prepared_tokenizer and sp = True
             and tks = "[''<doc-s>'', ''</doc-s>'']"]
  by (simp add: prepared_tokenizer_def len_def)

lemma resize_rows:
  "embedding (resize_token_embeddings m0 n) =
     take n (embedding m0) @ map (init_row m0) [length (embedding m0) ..< n]"
  by (simp add: resize_token_embeddings_def)

lemma resize_length: "length (embedding (resize_token_embeddings m0 n)) = n"
  by (simp add: resize_rows)

lemma resize_nth:
  "i < length (embedding m0) \<Longrightarrow> i < n \<Longrightarrow>
     embedding (resize_token_embeddings m0 n) ! i = embedding m0 ! i"
  by (simp add: resize_rows nth_append)

lemma load_and_prepare_run:
  assumes "model_from_pretrained E checkpoint = Inr m0"
    and "tokenizer_from_pretrained E checkpoint = Inr tok0"
    and "tok = add_tokens [''</doc-s>''] True (add_tokens [''<doc-s>''] True tok0)"
    and "TextDataset E tok ''train'' (train_data_file d) 4096 (local_rank t) = Inr ds"
  shows "load_and_prepare E d t tr =
           (Inr (resize_token_embeddings m0 (len tok), tok, d\<lparr>block_size := 4096\<rparr>, ds),
            tr @ [LoadModel checkpoint, LoadTokenizer checkpoint,
                  AddTokens [''<doc-s>''] True, AddTokens [''</doc-s>''] True,
                  NewTextDataset tok ''train'' (train_data_file d) 4096 (local_rank t),
                  ResizeTokenEmbeddings (len tok)])"
  using assms
  by (simp add: load_and_prepare_def get_dataset_def Let_def del: add_tokens.simps)

lemma sample_prepare:
  "load_and_prepare sample_env default_DataTrainingArguments sample_training_args []
     = (Inr (resize_token_embeddings sample_model 5, prepared_tokenizer,
             default_DataTrainingArguments\<lparr>block_size := 4096\<rparr>, ()),
        [LoadModel checkpoint, LoadTokenizer checkpoint,
         AddTokens [''<doc-s>''] True, AddTokens [''</doc-s>''] True,
         NewTextDataset prepared_tokenizer ''train'' (Some ''train.txt.src'') 4096 (- 1),
         ResizeTokenEmbeddings 5])"
  by (simp add: load_and_prepare_def get_dataset_def Let_def sample_env_def checkpoint_def
        sample_tokenizer_def prepared_tokenizer_def len_def default_DataTrainingArguments_def
        sample_training_args_def eval_nat_numeral)

lemma wide_prepare:
  "load_and_prepare wide_env default_DataTrainingArguments sample_training_args []
     = (Inr (resize_token_embeddings wide_model 5, prepared_tokenizer,
             default_DataTrainingArguments\<lparr>block_size := 4096\<rparr>, ()),
        [LoadModel checkpoint, LoadTokenizer checkpoint,
         AddTokens [''<doc-s>''] True, AddTokens [''</doc-s>''] True,
         NewTextDataset prepared_tokenizer ''train'' (Some ''train.txt.src'') 4096 (- 1),
         ResizeTokenEmbeddings 5])"
  by (simp add: load_and_prepare_def get_dataset_def Let_def wide_env_def sample_env_def checkpoint_def
        sample_tokenizer_def prepared_tokenizer_def len_def default_DataTrainingArguments_def
        sample_training_args_def eval_nat_numeral)

text \<open>
  C5, as stated, fails. The tokenizer of the checkpoint has three tokens and neither
  sentinel token; the embedding matrix of the checkpoint has eight rows. Lines
  159--167 of \<open>main\<close> leave a matrix of five rows: the old rows with the ids 5, 6 and
  7 are not preserved.
\<close>

theorem wide_matrix_rows_dropped_counterexample:
  "tokenizer_from_pretrained wide_env checkpoint = Inr sample_tokenizer
   \<and> ''<doc-s>'' \<notin> set (vocab sample_tokenizer) \<and> ''</doc-s>'' \<notin> set (vocab sample_tokenizer)
   \<and> model_from_pretrained wide_env checkpoint = Inr wide_model
   \<and> embedding wide_model = [10, 11, 12, 13, 14, 15, 16, 17]
   \<and> load_and_prepare wide_env default_DataTrainingArguments sample_training_args []
       = (Inr (resize_token_embeddings wide_model 5, prepared_tokenizer,
               default_DataTrainingArguments\<lparr>block_size := 4096\<rparr>, ()),
          [LoadModel checkpoint, LoadTokenizer checkpoint,
           AddTokens [''<doc-s>''] True, AddTokens [''</doc-s>''] True,
           NewTextDataset prepared_tokenizer ''train'' (Some ''train.txt.src'') 4096 (- 1),
           ResizeTokenEmbeddings 5])
   \<and> embedding (resize_token_embeddings wide_model 5) = [10, 11, 12, 13, 14]"
proof -
  have a: "tokenizer_from_pretrained wide_env checkpoint = Inr sample_tokenizer"
    by (simp add: wide_env_def sample_env_def checkpoint_def)
  have b: "''<doc-s>'' \<notin> set (vocab sample_tokenizer)"
    and c: "''</doc-s>'' \<notin> set (vocab sample_tokenizer)"
    by (simp_all add: sample_tokenizer_def)
  have d: "model_from_pretrained wide_env checkpoint = Inr wide_model"
    by (simp add: wide_env_def)
  have e: "embedding wide_model = [10, 11, 12, 13, 14, 15, 16, 17]"
    by (simp add: wide_model_def)
  have f: "embedding (resize_token_embeddings wide_model 5) = [10, 11, 12, 13, 14]"
    by (simp add: resize_rows wide_model_def)
  show ?thesis
    by (rule conjI [OF a conjI [OF b conjI [OF c conjI [OF d conjI [OF e conjI [OF wide_prepare f]]]]]])
qed

text \<open>
  C5, amended. Lines 159--167 of \<open>main\<close>: if the model and the tokenizer load, the
  loaded tokenizer has neither sentinel token, and the training dataset can be built,
  then the block returns; the vocabulary is then the old one followed by \<open><doc-s>\<close>
  and \<open></doc-s>\<close> (two more tokens), both are marked special, and the embedding
  matrix has exactly \<open>len(tokenizer)\<close> rows, requested by one resize call with the new
  size. Every old row whose id is below the new size is unchanged; so all old rows
  are unchanged when the matrix had at most as many rows as the new vocabulary. Old
  rows with an id at or above the new size are dropped.
\<close>

theorem sentinel_registration_and_resize:
  assumes "model_from_pretrained E checkpoint = Inr m0"
    and "tokenizer_from_pretrained E checkpoint = Inr tok0"
    and "''<doc-s>'' \<notin> set (vocab tok0)" and "''</doc-s>'' \<notin> set (vocab tok0)"
    and "tok = add_tokens [''</doc-s>''] True (add_tokens [''<doc-s>''] True tok0)"
    and "model = resize_token_embeddings m0 (len tok)"
    and "TextDataset E tok ''train'' (train_data_file d) 4096 (local_rank t) = Inr ds"
  shows "load_and_prepare E d t tr =
           (Inr (model, tok, d\<lparr>block_size := 4096\<rparr>, ds),
            tr @ [LoadModel checkpoint, LoadTokenizer checkpoint,
                  AddTokens [''<doc-s>''] True, AddTokens [''</doc-s>''] True,
                  NewTextDataset tok ''train'' (train_data_file d) 4096 (local_rank t),
                  ResizeTokenEmbeddings (len tok0 + 2)])
     \<and> len tok = len tok0 + 2
     \<and> vocab tok = vocab tok0 @ [''<doc-s>'', ''</doc-s>'']
     \<and> ''<doc-s>'' \<in> set (special tok) \<and> ''</doc-s>'' \<in> set (special tok)
     \<and> length (embedding model) = len tok
     \<and> (\<forall>i. i < length (embedding m0) \<and> i < len tok \<longrightarrow> embedding model ! i = embedding m0 ! i)
     \<and> (length (embedding m0) \<le> len tok \<longrightarrow>
          take (length (embedding m0)) (embedding model) = embedding m0)
     \<and> (len tok \<le> length (embedding m0) \<longrightarrow> embedding model = take (len tok) (embedding m0))"
proof -
  note tok = assms(5) and model = assms(6)
  have v: "vocab tok = vocab tok0 @ [''<doc-s>'', ''</doc-s>'']"
    using assms(3,4) by (simp add: tok)
  have l: "len tok = len tok0 + 2"
    by (simp add: len_def v)
  have run: "load_and_prepare E d t tr =
           (Inr (model, tok, d\<lparr>block_size := 4096\<rparr>, ds),
            tr @ [LoadModel checkpoint, LoadTokenizer checkpoint,
                  AddTokens [''<doc-s>''] True, AddTokens [''</doc-s>''] True,
                  NewTextDataset tok ''train'' (train_data_file d) 4096 (local_rank t),
                  ResizeTokenEmbeddings (len tok0 + 2)])"
    using load_and_prepare_run [OF assms(1) assms(2) tok assms(7), of tr] by (simp only: model l)
  have s1: "''<doc-s>'' \<in> set (special tok)" and s2: "''</doc-s>'' \<in> set (special tok)"
    by (simp_all add: tok)
  have n: "length (embedding model) = len tok"
    by (simp add: model resize_length)
  have rows: "\<forall>i. i < length (embedding m0) \<and> i < len tok \<longrightarrow> embedding model ! i = embedding m0 ! i"
    by (simp add: model resize_nth)
  have keep: "length (embedding m0) \<le> len tok \<longrightarrow>
          take (length (embedding m0)) (embedding model) = embedding m0"
    by (simp add: model resize_rows)
  have cut: "len tok \<le> length (embedding m0) \<longrightarrow> embedding model = take (len tok) (embedding m0)"
    by (simp add: model resize_rows)
  show ?thesis
    by (rule conjI [OF run conjI [OF l conjI [OF v conjI [OF s1 conjI [OF s2 conjI [OF n
          conjI [OF rows conjI [OF keep cut]]]]]]]])
qed

theorem sentinel_registration_and_resize_witness:
  "load_and_prepare sample_env default_DataTrainingArguments sample_training_args []
     = (Inr (resize_token_embeddings sample_model 5, prepared_tokenizer,
             default_DataTrainingArguments\<lparr>block_size := 4096\<rparr>, ()),
        [LoadModel checkpoint, LoadTokenizer checkpoint,
         AddTokens [''<doc-s>''] True, AddTokens [''</doc-s>''] True,
         NewTextDataset prepared_tokenizer ''train'' (Some ''train.txt.src'') 4096 (- 1),
         ResizeTokenEmbeddings 5])
   \<and> len sample_tokenizer = 3 \<and> len prepared_tokenizer = 5
   \<and> vocab prepared_tokenizer = vocab sample_tokenizer @ [''<doc-s>'', ''</doc-s>'']
   \<and> ''<doc-s>'' \<in> set (special prepared_tokenizer) \<and> ''</doc-s>'' \<in> set (special prepared_tokenizer)
   \<and> embedding sample_model = [10, 11, 12]
   \<and> embedding (resize_token_embeddings sample_model 5) = [10, 11, 12, 0, 0]"
proof -
  have m0: "model_from_pretrained sample_env checkpoint = Inr sample_model"
    and t0: "tokenizer_from_pretrained sample_env checkpoint = Inr sample_tokenizer"
    by (simp_all add: sample_env_def checkpoint_def)
  have a: "''<doc-s>'' \<notin> set (vocab sample_tokenizer)" and b: "''</doc-s>'' \<notin> set (vocab sample_tokenizer)"
    by (simp_all add: sample_tokenizer_def)
  have tok: "prepared_tokenizer
               = add_tokens [''</doc-s>''] True (add_tokens [''<doc-s>''] True sample_tokenizer)"
    by (simp add: prepared_tokenizer_def sample_tokenizer_def)
  have l5: "len prepared_tokenizer = 5"
    by (simp add: len_def prepared_tokenizer_def)
  have model: "resize_token_embeddings sample_model 5
                 = resize_token_embeddings sample_model (len prepared_tokenizer)"
    by (simp only: l5)
  have ds: "TextDataset sample_env prepared_tokenizer ''train''
              (train_data_file default_DataTrainingArguments) 4096 (local_rank sample_training_args)
            = Inr ()"
    by (simp add: sample_env_def default_DataTrainingArguments_def)
  note concl = sentinel_registration_and_resize
      [OF m0 t0 a b tok model ds, where tr = "[]"]
  have run: "load_and_prepare sample_env default_DataTrainingArguments sample_training_args []
     = (Inr (resize_token_embeddings sample_model 5, prepared_tokenizer,
             default_DataTrainingArguments\<lparr>block_size := 4096\<rparr>, ()),
        [LoadModel checkpoint, LoadTokenizer checkpoint,
         AddTokens [''<doc-s>''] True, AddTokens [''</doc-s>''] True,
         NewTextDataset prepared_tokenizer ''train'' (Some ''train.txt.src'') 4096 (- 1),
         ResizeTokenEmbeddings 5])"
    using concl [THEN conjunct1]
    by (simp add: default_DataTrainingArguments_def sample_training_args_def len_def
          sample_tokenizer_def)
  have l3: "len sample_tokenizer = 3"
    by (simp add: len_def sample_tokenizer_def)
  have v: "vocab prepared_tokenizer = vocab sample_tokenizer @ [''<doc-s>'', ''</doc-s>'']"
    using concl [THEN conjunct2, THEN conjunct2, THEN conjunct1] .
  have s1: "''<doc-s>'' \<in> set (special prepared_tokenizer)"
    using concl [THEN conjunct2, THEN conjunct2, THEN conjunct2, THEN conjunct1] .
  have s2: "''</doc-s>'' \<in> set (special prepared_tokenizer)"
    using concl [THEN conjunct2, THEN conjunct2, THEN conjunct2, THEN conjunct2, THEN conjunct1] .
  have e0: "embedding sample_model = [10, 11, 12]"
    by (simp add: sample_model_def)
  have keep: "take (length (embedding sample_model)) (embedding (resize_token_embeddings sample_model 5))
                = embedding sample_model"
    using concl [THEN conjunct2, THEN conjunct2, THEN conjunct2, THEN conjunct2, THEN conjunct2,
                 THEN conjunct2, THEN conjunct2, THEN conjunct1]
    by (simp add: l5 e0)
  have e5: "embedding (resize_token_embeddings sample_model 5) = [10, 11, 12, 0, 0]"
    by (simp add: resize_rows sample_model_def upt_rec)
  show ?thesis
    by (rule conjI [OF run conjI [OF l3 conjI [OF l5 conjI [OF v conjI [OF s1 conjI [OF s2
          conjI [OF e0 e5]]]]]]])
qed

subsection \<open>Perplexity\<close>












end
